theory Spec2Isabelle
  imports Main
begin

section \<open>Values exchanged with the platform\<close>

text \<open>
  The client is TypeScript on top of three platform primitives: \<^verbatim>\<open>fetch\<close>, the JSON
  encoder and decoder, and the timer. The model keeps the client's own code as HOL
  functions and takes what the platform answers as data: the outcome of the \<^verbatim>\<open>fetch\<close>
  promise and the outcome of \<^verbatim>\<open>response.json()\<close> are values the functions branch on,
  the way the source branches on them with \<^verbatim>\<open>await\<close> and \<^verbatim>\<open>try/catch\<close>.

  A decoded JSON document. Object members are an association list in property order,
  read with \<open>map_of\<close>. Numbers are the integers: fractions, and integers that a double
  rounds or prints with an exponent, are outside the model.
\<close>

datatype json =
    JNull
  | JBool bool
  | JNum int
  | JStr string
  | JArr "json list"
  | JObj "(string \<times> json) list"

text \<open>
  A value of a variable that may be \<^verbatim>\<open>undefined\<close> is a \<open>json option\<close>, with \<open>None\<close> for
  \<^verbatim>\<open>undefined\<close>.
\<close>

type_synonym js_value = "json option"

text \<open>
  Decimal rendering of an integer, as template literals and \<^verbatim>\<open>String\<close> print it. The
  language prints a number this way when it is an integer of magnitude below \<open>10 ^ 21\<close>;
  larger and fractional numbers are outside the model.
\<close>

definition digit_char :: "nat \<Rightarrow> char" where
  "digit_char d = char_of (48 + d)"

fun show_nat :: "nat \<Rightarrow> string" where
  "show_nat n = (if n < 10 then [digit_char n] else show_nat (n div 10) @ [digit_char (n mod 10)])"

declare show_nat.simps [simp del]

definition show_int :: "int \<Rightarrow> string" where
  "show_int i = (if i < 0 then CHR ''-'' # show_nat (nat (- i)) else show_nat (nat i))"

fun join_with :: "string \<Rightarrow> string list \<Rightarrow> string" where
  "join_with sep [] = []"
| "join_with sep [x] = x"
| "join_with sep (x # y # ys) = x @ sep @ join_with sep (y # ys)"

text \<open>
  The language's \<^verbatim>\<open>ToString\<close> on a decoded value: a string is itself, an array joins
  its elements with commas (\<^verbatim>\<open>null\<close> elements print as nothing), an object prints as
  \<^verbatim>\<open>[object Object]\<close>. (An object that has a member of its own called \<^verbatim>\<open>toString\<close> makes
  the conversion throw instead; such objects are outside the model. The values that are
  converted here are typed as strings and numbers in the source.)
\<close>

fun ToString :: "json \<Rightarrow> string"
  and element_string :: "json \<Rightarrow> string" where
  "ToString JNull = ''null''"
| "ToString (JBool b) = (if b then ''true'' else ''false'')"
| "ToString (JNum n) = show_int n"
| "ToString (JStr s) = s"
| "ToString (JArr xs) = join_with '','' (map element_string xs)"
| "ToString (JObj ps) = ''[object Object]''"
| "element_string JNull = []"
| "element_string (JBool b) = ToString (JBool b)"
| "element_string (JNum n) = ToString (JNum n)"
| "element_string (JStr s) = ToString (JStr s)"
| "element_string (JArr xs) = ToString (JArr xs)"
| "element_string (JObj ps) = ToString (JObj ps)"

text \<open>Truthiness, as \<^verbatim>\<open>if (v)\<close> and \<^verbatim>\<open>v ? a : b\<close> test it.\<close>

fun truthy :: "js_value \<Rightarrow> bool" where
  "truthy None = False"
| "truthy (Some JNull) = False"
| "truthy (Some (JBool b)) = b"
| "truthy (Some (JNum n)) = (n \<noteq> 0)"
| "truthy (Some (JStr s)) = (s \<noteq> [])"
| "truthy (Some (JArr xs)) = True"
| "truthy (Some (JObj ps)) = True"

section \<open>Errors\<close>

text \<open>
  \<^verbatim>\<open>parseInt(s, 10)\<close>: leading white space is skipped, one sign is read, then the
  longest run of decimal digits; with no digit the result is \<^verbatim>\<open>NaN\<close>. Whatever follows
  the digits is ignored. A header value is a byte string, so the white space characters
  are the seven below. \<open>Finite n\<close> stands for the number \<open>n\<close> (\<^verbatim>\<open>-0\<close> and \<open>0\<close> are
  one value here). A number is a double: up to \<open>2 ^ 53\<close> the integer read is the number
  itself, beyond it the result is the double nearest to the integer read, \<open>Rounded n\<close>,
  whose value the model does not compute.
\<close>

datatype js_number = NaN | Finite int | Rounded int

definition is_whitespace :: "char \<Rightarrow> bool" where
  "is_whitespace c = ((of_char c :: nat) \<in> set [9, 10, 11, 12, 13, 32, 160])"

definition is_digit :: "char \<Rightarrow> bool" where
  "is_digit c = (48 \<le> (of_char c :: nat) \<and> (of_char c :: nat) \<le> 57)"

definition digit_value :: "char \<Rightarrow> nat" where
  "digit_value c = of_char c - 48"

definition parseInt :: "string \<Rightarrow> js_number" where
  "parseInt s =
     (let S = dropWhile is_whitespace s;
          negative = (case S of c # cs \<Rightarrow> c = CHR ''-'' | [] \<Rightarrow> False);
          S1 = (case S of c # cs \<Rightarrow> if c = CHR ''+'' \<or> c = CHR ''-'' then cs else S | [] \<Rightarrow> []);
          Z = takeWhile is_digit S1;
          mathInt = foldl (\<lambda>a c. 10 * a + digit_value c) 0 Z
      in if Z = [] then NaN
         else if mathInt \<le> 9007199254740992 then
           Finite (if negative then - int mathInt else int mathInt)
         else Rounded (if negative then - int mathInt else int mathInt))"

text \<open>
  \<^verbatim>\<open>class FliinowError extends Error\<close>. The fields copied from the response body are
  whatever the body holds there, so they are \<open>js_value\<close>s; \<open>message\<close> goes through the
  \<^verbatim>\<open>Error\<close> constructor, which leaves it empty for \<^verbatim>\<open>undefined\<close> and converts anything
  else to a string.
\<close>

record FliinowError =
  message :: string
  name :: string
  statusCode :: nat
  code :: js_value
  path :: js_value
  requestId :: js_value
  retryAfter :: "js_number option"

text \<open>
  What a \<^verbatim>\<open>catch\<close> clause can receive: a \<open>FliinowError\<close>, any other instance of
  \<^verbatim>\<open>Error\<close> (\<^verbatim>\<open>TypeError\<close>, \<^verbatim>\<open>SyntaxError\<close>, a \<^verbatim>\<open>DOMException\<close>, ...) with its \<open>name\<close> and
  \<open>message\<close>, or a thrown value that is no \<^verbatim>\<open>Error\<close> at all.
\<close>

datatype thrown =
    FliinowErr FliinowError
  | ErrorObj string string
  | NonError js_value



text \<open>
  What becomes of a promise that is awaited: it is fulfilled with a value, it is rejected
  with a thrown value, or it never settles, and the \<^verbatim>\<open>await\<close> never returns.
\<close>

datatype 'a promise = Fulfilled 'a | Rejected thrown | Pending

text \<open>Reading a property of a decoded body: \<^verbatim>\<open>undefined\<close> unless an object has it.\<close>

fun member :: "json \<Rightarrow> string \<Rightarrow> js_value" where
  "member (JObj ps) k = map_of ps k"
| "member v k = None"

definition null_TypeError :: "string \<Rightarrow> thrown" where
  "null_TypeError k =
     ErrorObj ''TypeError'' (''Cannot read properties of null (reading '' @ k @ '')'')"

text \<open>
  The constructor. Its first statement reads \<^verbatim>\<open>response.message\<close>, which throws a
  \<^verbatim>\<open>TypeError\<close> when the body decoded to \<^verbatim>\<open>null\<close>.
\<close>

definition FliinowError_new :: "json \<Rightarrow> nat \<Rightarrow> js_number option \<Rightarrow> thrown + FliinowError" where
  "FliinowError_new response sc ra =
     (if response = JNull then Inl (null_TypeError ''message'')
      else Inr \<lparr> message = (case member response ''message'' of None \<Rightarrow> [] | Some v \<Rightarrow> ToString v),
                 name = ''FliinowError'',
                 statusCode = sc,
                 code = member response ''error'',
                 path = member response ''path'',
                 requestId = member response ''requestId'',
                 retryAfter = ra \<rparr>)"

section \<open>The client\<close>

record FliinowClientConfig =
  apiKey :: string
  sandbox :: "bool option"
  timeout :: "int option"
  baseUrl :: "string option"

record client =
  client_baseUrl :: string
  client_apiKey :: string
  client_timeout :: int

text \<open>
  The constructor. \<^verbatim>\<open>config.timeout ?? 30000\<close> replaces only a missing timeout;
  \<^verbatim>\<open>if (config.baseUrl)\<close> and \<^verbatim>\<open>else if (config.sandbox)\<close> test truthiness.
\<close>

definition FliinowClient :: "FliinowClientConfig \<Rightarrow> client" where
  "FliinowClient config =
     \<lparr> client_baseUrl =
         (if (case baseUrl config of None \<Rightarrow> False | Some u \<Rightarrow> u \<noteq> []) then
            (case baseUrl config of None \<Rightarrow> [] | Some u \<Rightarrow> u)
          else if sandbox config = Some True then ''https://demo.fliinow.com/integration-api/v1''
          else ''https://app.fliinow.com/integration-api/v1''),
       client_apiKey = apiKey config,
       client_timeout = (case timeout config of None \<Rightarrow> 30000 | Some t \<Rightarrow> t) \<rparr>"

datatype http_method = GET | POST | PUT | DELETE

text \<open>
  \<open>request\<close> creates one \<^verbatim>\<open>AbortController\<close>; \<open>controller_signal\<close> is its signal, and the
  \<open>Abort\<close> event below is \<^verbatim>\<open>controller.abort()\<close>.
\<close>

datatype abort_signal = controller_signal

text \<open>The arguments of one \<^verbatim>\<open>fetch\<close> call (\<open>http_method\<close> is its \<^verbatim>\<open>method\<close>).\<close>

record fetch_init =
  url :: string
  http_method :: http_method
  headers :: "(string \<times> string) list"
  body :: "string option"
  signal :: "abort_signal option"

text \<open>
  A response: its status, its headers (keyed by lower-case name, as \<^verbatim>\<open>Headers\<close> compares
  names without case) and what becomes of \<^verbatim>\<open>response.json()\<close> when it is called: it
  gives the decoded body, or it throws, or the body never arrives in full and the
  promise stays pending.
\<close>

record response =
  status :: nat
  resp_headers :: "string \<rightharpoonup> string"
  json_result :: "json promise"

definition ok :: "response \<Rightarrow> bool" where
  "ok r = (200 \<le> status r \<and> status r \<le> 299)"

definition ascii_lower :: "char \<Rightarrow> char" where
  "ascii_lower c =
     (if 65 \<le> (of_char c :: nat) \<and> (of_char c :: nat) \<le> 90 then char_of ((of_char c :: nat) + 32) else c)"

definition headers_get :: "(string \<rightharpoonup> string) \<Rightarrow> string \<Rightarrow> string option" where
  "headers_get h k = h (map ascii_lower k)"

text \<open>
  The \<^verbatim>\<open>fetch\<close> promise either resolves with a response, or rejects, or is still pending
  when the timer fires. \<open>Unsettled e\<close> is the pending call: the platform rejects it with
  \<open>e\<close> once the signal it was given is aborted (the Fetch standard makes \<open>e\<close> a
  \<^verbatim>\<open>DOMException\<close> named \<^verbatim>\<open>AbortError\<close>), and a call that was given no signal stays
  pending.
\<close>

datatype fetch_outcome =
    Resolves response
  | Rejects thrown
  | Unsettled thrown

record platform =
  JSON_stringify :: "json \<Rightarrow> string"
  fetch :: "fetch_init \<Rightarrow> fetch_outcome"

text \<open>What \<open>request\<close> does to the platform, in order.\<close>

datatype event =
    SetTimeout int
  | ClearTimeout
  | TimerFires
  | Abort
  | Fetch fetch_init
  | ReadJson

text \<open>The statements of the \<^verbatim>\<open>try\<close> block after \<^verbatim>\<open>await fetch(...)\<close> has given a response.\<close>

definition on_response :: "response \<Rightarrow> event list \<times> js_value promise" where
  "on_response r =
     (if status r = 204 then ([ClearTimeout], Fulfilled None)
      else
        (case json_result r of
           Rejected e \<Rightarrow> ([ClearTimeout, ReadJson], Rejected e)
         | Pending \<Rightarrow> ([ClearTimeout, ReadJson], Pending)
         | Fulfilled data \<Rightarrow>
             if \<not> ok r then
               (let ra = headers_get (resp_headers r) ''Retry-After'' in
                ([ClearTimeout, ReadJson],
                 (case FliinowError_new data (status r)
                         (case ra of None \<Rightarrow> None
                          | Some s \<Rightarrow> if s \<noteq> [] then Some (parseInt s) else None) of
                    Inl e \<Rightarrow> Rejected e
                  | Inr fe \<Rightarrow> Rejected (FliinowErr fe))))
             else ([ClearTimeout, ReadJson], Fulfilled (Some data))))"

text \<open>
  The \<^verbatim>\<open>try\<close> block. When the call is still pending as the timer fires, the callback
  runs \<^verbatim>\<open>controller.abort()\<close>, and the call is rejected if it was given the controller's
  signal.
\<close>

definition try_block :: "platform \<Rightarrow> fetch_init \<Rightarrow> event list \<times> js_value promise" where
  "try_block p init =
     (case fetch p init of
        Rejects e \<Rightarrow> ([Fetch init], Rejected e)
      | Unsettled e \<Rightarrow>
          ([Fetch init, TimerFires, Abort],
           if signal init = Some controller_signal then Rejected e else Pending)
      | Resolves r \<Rightarrow> (case on_response r of (ev, res) \<Rightarrow> (Fetch init # ev, res)))"

text \<open>The \<^verbatim>\<open>catch\<close> clause after its \<^verbatim>\<open>clearTimeout\<close>: what it throws for what it caught.\<close>

fun catch_clause :: "int \<Rightarrow> thrown \<Rightarrow> thrown" where
  "catch_clause t (FliinowErr e) = FliinowErr e"
| "catch_clause t (ErrorObj n m) =
     (if n = ''AbortError'' then ErrorObj ''Error'' (''Request timeout after '' @ show_int t @ ''ms'')
      else ErrorObj n m)"
| "catch_clause t (NonError v) = ErrorObj ''Error'' ''Unknown error occurred''"

text \<open>
  The URL, the headers, the payload and the signal that \<open>request\<close> hands to \<^verbatim>\<open>fetch\<close>;
  the payload is \<^verbatim>\<open>body ? JSON.stringify(body) : undefined\<close>.
\<close>

definition request_init :: "platform \<Rightarrow> client \<Rightarrow> http_method \<Rightarrow> string \<Rightarrow> js_value \<Rightarrow> fetch_init" where
  "request_init p c m pth b =
     \<lparr> url = client_baseUrl c @ pth,
       http_method = m,
       headers = [(''X-Fliinow-API-Key'', client_apiKey c),
                  (''Content-Type'', ''application/json''),
                  (''Accept'', ''application/json'')],
       body = (case b of None \<Rightarrow> None
               | Some v \<Rightarrow> if truthy b then Some (JSON_stringify p v) else None),
       signal = Some controller_signal \<rparr>"

text \<open>
  \<open>request\<close>: the events in order, and what becomes of the promise it returns. The
  timer is set before the \<^verbatim>\<open>try\<close> block; the \<^verbatim>\<open>catch\<close> clause clears it and then throws.
  The timer covers the wait for the response: it is cleared as soon as \<^verbatim>\<open>fetch\<close> has
  given one, before the body is read.
\<close>

definition request ::
  "platform \<Rightarrow> client \<Rightarrow> http_method \<Rightarrow> string \<Rightarrow> js_value \<Rightarrow> event list \<times> js_value promise" where
  "request p c m pth b =
     (case try_block p (request_init p c m pth b) of
        (ev, Fulfilled v) \<Rightarrow> (SetTimeout (client_timeout c) # ev, Fulfilled v)
      | (ev, Rejected e) \<Rightarrow>
          (SetTimeout (client_timeout c) # ev @ [ClearTimeout],
           Rejected (catch_clause (client_timeout c) e))
      | (ev, Pending) \<Rightarrow> (SetTimeout (client_timeout c) # ev, Pending))"

text \<open>Whether a timer is still scheduled after a sequence of events.\<close>

fun timer_after :: "bool \<Rightarrow> event list \<Rightarrow> bool" where
  "timer_after s [] = s"
| "timer_after s (SetTimeout t # es) = timer_after True es"
| "timer_after s (ClearTimeout # es) = timer_after False es"
| "timer_after s (TimerFires # es) = timer_after False es"
| "timer_after s (e # es) = timer_after s es"

definition dangling_timer :: "event list \<Rightarrow> bool" where
  "dangling_timer es = timer_after False es"

section \<open>Listing operations\<close>

text \<open>
  \<^verbatim>\<open>URLSearchParams\<close> is a list of name and value pairs; \<^verbatim>\<open>toString\<close> is the
  \<^verbatim>\<open>application/x-www-form-urlencoded\<close> serializer of the URL standard: letters, digits
  and \<^verbatim>\<open>* - . _\<close> stand for themselves, a space becomes \<^verbatim>\<open>+\<close>, and every other byte is
  \<^verbatim>\<open>%\<close> and two upper-case hexadecimal digits. Strings are their UTF-8 bytes here.
\<close>

definition is_urlencoded_safe :: "char \<Rightarrow> bool" where
  "is_urlencoded_safe c =
     (let n = (of_char c :: nat)
      in (48 \<le> n \<and> n \<le> 57) \<or> (65 \<le> n \<and> n \<le> 90) \<or> (97 \<le> n \<and> n \<le> 122)
         \<or> n = 42 \<or> n = 45 \<or> n = 46 \<or> n = 95)"

definition hex_digit :: "nat \<Rightarrow> char" where
  "hex_digit d = (if d < 10 then char_of (48 + d) else char_of (55 + d))"

definition urlencode_byte :: "char \<Rightarrow> string" where
  "urlencode_byte c =
     (if c = CHR '' '' then ''+''
      else if is_urlencoded_safe c then [c]
      else [CHR ''%'', hex_digit ((of_char c :: nat) div 16), hex_digit ((of_char c :: nat) mod 16)])"

definition urlencode :: "string \<Rightarrow> string" where
  "urlencode s = concat (map urlencode_byte s)"

definition urlencode_pair :: "string \<times> string \<Rightarrow> string" where
  "urlencode_pair kv = urlencode (fst kv) @ ''='' @ urlencode (snd kv)"

definition URLSearchParams_toString :: "(string \<times> string) list \<Rightarrow> string" where
  "URLSearchParams_toString sp = join_with ''&'' (map urlencode_pair sp)"

text \<open>\<^verbatim>\<open>String(value)\<close>.\<close>

fun String :: "js_value \<Rightarrow> string" where
  "String None = ''undefined''"
| "String (Some v) = ToString v"

text \<open>
  \<open>buildQueryString\<close>. The parameters object is the list of its entries in the order
  \<^verbatim>\<open>Object.entries\<close> enumerates them; the loop appends to \<open>searchParams\<close>.
\<close>

definition buildQueryString :: "(string \<times> js_value) list \<Rightarrow> string" where
  "buildQueryString params =
     (let searchParams =
            foldl (\<lambda>sp (key, v). if v \<noteq> None \<and> v \<noteq> Some JNull then sp @ [(key, String v)] else sp)
              [] params;
          queryString = URLSearchParams_toString searchParams
      in if queryString \<noteq> [] then ''?'' @ queryString else [])"

definition list ::
  "platform \<Rightarrow> client \<Rightarrow> (string \<times> js_value) list option \<Rightarrow> event list \<times> js_value promise" where
  "list p c params =
     (let query = (case params of Some ps \<Rightarrow> buildQueryString ps | None \<Rightarrow> [])
      in request p c GET (''/operations'' @ query) None)"

text \<open>
  Reading a query string back, as the receiving side does (the URL standard's parser
  for the same format): an optional leading \<^verbatim>\<open>?\<close> is dropped, the rest is cut at every
  \<^verbatim>\<open>&\<close>, empty pieces are skipped, each piece is cut at its first \<^verbatim>\<open>=\<close>, and in both halves
  \<^verbatim>\<open>+\<close> is a space and \<^verbatim>\<open>%XY\<close> is the byte with that hexadecimal code.
\<close>

fun split_on :: "char \<Rightarrow> string \<Rightarrow> string list" where
  "split_on d [] = [[]]"
| "split_on d (c # cs) =
     (if c = d then [] # split_on d cs
      else (case split_on d cs of x # xs \<Rightarrow> (c # x) # xs | [] \<Rightarrow> [[c]]))"

definition is_hex :: "char \<Rightarrow> bool" where
  "is_hex c =
     (let n = (of_char c :: nat)
      in (48 \<le> n \<and> n \<le> 57) \<or> (65 \<le> n \<and> n \<le> 70) \<or> (97 \<le> n \<and> n \<le> 102))"

definition hex_value :: "char \<Rightarrow> nat" where
  "hex_value c =
     (let n = (of_char c :: nat)
      in if n \<le> 57 then n - 48 else if n \<le> 70 then n - 55 else n - 87)"

fun urldecode :: "string \<Rightarrow> string" where
  "urldecode [] = []"
| "urldecode (c # cs) =
     (if c = CHR ''+'' then CHR '' '' # urldecode cs
      else if c = CHR ''%'' then
        (case cs of
           h1 # h2 # rest \<Rightarrow>
             if is_hex h1 \<and> is_hex h2 then char_of (16 * hex_value h1 + hex_value h2) # urldecode rest
             else c # urldecode cs
         | _ \<Rightarrow> c # urldecode cs)
      else c # urldecode cs)"

definition parse_urlencoded :: "string \<Rightarrow> (string \<times> string) list" where
  "parse_urlencoded input =
     map (\<lambda>piece. (urldecode (takeWhile (\<lambda>c. c \<noteq> CHR ''='') piece),
                    urldecode (drop 1 (dropWhile (\<lambda>c. c \<noteq> CHR ''='') piece))))
       (filter (\<lambda>piece. piece \<noteq> []) (split_on CHR ''&'' input))"

definition query_fields :: "string \<Rightarrow> (string \<times> string) list" where
  "query_fields q =
     parse_urlencoded (case q of c # cs \<Rightarrow> if c = CHR ''?'' then cs else q | [] \<Rightarrow> [])"

text \<open>The fields of a parameters object that are present, with their values as strings.\<close>

definition present_fields :: "(string \<times> js_value) list \<Rightarrow> (string \<times> string) list" where
  "present_fields params =
     map (\<lambda>(k, v). (k, String v)) (filter (\<lambda>(k, v). v \<noteq> None \<and> v \<noteq> Some JNull) params)"

text \<open>The \<^verbatim>\<open>fetch\<close> calls among the events.\<close>

fun fetch_calls :: "event list \<Rightarrow> fetch_init list" where
  "fetch_calls [] = []"
| "fetch_calls (Fetch i # es) = i # fetch_calls es"
| "fetch_calls (e # es) = fetch_calls es"


section \<open>Example inputs\<close>

text \<open>A platform whose \<^verbatim>\<open>fetch\<close> always has the given outcome.\<close>

definition mock_platform :: "fetch_outcome \<Rightarrow> platform" where
  "mock_platform out = \<lparr> JSON_stringify = (\<lambda>j. ''{}''), fetch = (\<lambda>i. out) \<rparr>"

definition sandbox_client :: client where
  "sandbox_client = FliinowClient \<lparr> apiKey = ''fk_test_key'', sandbox = Some True, timeout = None, baseUrl = None \<rparr>"

definition rate_limit_envelope :: json where
  "rate_limit_envelope =
     JObj [(''error'', JStr ''RATE_LIMIT_EXCEEDED''),
           (''message'', JStr ''Too many requests''),
           (''timestamp'', JStr ''2026-01-13T10:00:00Z''),
           (''path'', JStr ''/operations'')]"

definition created_body :: json where
  "created_body =
     JObj [(''id'', JStr ''abc123''),
           (''status'', JStr ''NOT_YET_KNOWN''),
           (''financingUrl'', JStr ''https://pay.example/abc123''),
           (''extra'', JArr [JNum 1, JNull])]"

definition created_response :: response where
  "created_response = \<lparr> status = 200, resp_headers = Map.empty, json_result = Fulfilled created_body \<rparr>"

text \<open>A 204 response whose decoder throws if it is ever called.\<close>

definition no_content_response :: response where
  "no_content_response =
     \<lparr> status = 204, resp_headers = Map.empty,
       json_result = Rejected (ErrorObj ''SyntaxError'' ''Unexpected end of JSON input'') \<rparr>"

definition rate_limited_response :: "string option \<Rightarrow> response" where
  "rate_limited_response ra =
     \<lparr> status = 429,
       resp_headers = (case ra of None \<Rightarrow> Map.empty | Some v \<Rightarrow> [''retry-after'' \<mapsto> v]),
       json_result = Fulfilled rate_limit_envelope \<rparr>"

definition rate_limit_error :: "js_number option \<Rightarrow> FliinowError" where
  "rate_limit_error ra =
     \<lparr> message = ''Too many requests'', name = ''FliinowError'', statusCode = 429,
       code = Some (JStr ''RATE_LIMIT_EXCEEDED''), path = Some (JStr ''/operations''),
       requestId = None, retryAfter = ra \<rparr>"

definition AbortError :: thrown where
  "AbortError = ErrorObj ''AbortError'' ''This operation was aborted''"

definition sandbox_operations :: fetch_init where
  "sandbox_operations =
     \<lparr> url = ''https://demo.fliinow.com/integration-api/v1/operations'',
       http_method = GET,
       headers = [(''X-Fliinow-API-Key'', ''fk_test_key''),
                  (''Content-Type'', ''application/json''),
                  (''Accept'', ''application/json'')],
       body = None,
       signal = Some controller_signal \<rparr>"


definition quick_client :: client where
  "quick_client =
     FliinowClient \<lparr> apiKey = ''fk_test_key'', sandbox = Some True, timeout = Some 5000,
                     baseUrl = Some ''http://localhost:8080/'' \<rparr>"

text \<open>
  A 200 response whose headers have arrived and whose body never arrives in full.
\<close>

definition stalled_response :: response where
  "stalled_response = \<lparr> status = 200, resp_headers = Map.empty, json_result = Pending \<rparr>"

definition localhost_operations :: fetch_init where
  "localhost_operations =
     \<lparr> url = ''http://localhost:8080/operations'',
       http_method = GET,
       headers = [(''X-Fliinow-API-Key'', ''fk_test_key''),
                  (''Content-Type'', ''application/json''),
                  (''Accept'', ''application/json'')],
       body = None,
       signal = Some controller_signal \<rparr>"

section \<open>Auxiliary facts\<close>

subsection \<open>One request, by the outcome of the exchange\<close>

lemma request_Resolves:
  "fetch p (request_init p c m pth b) = Resolves r \<Longrightarrow>
   request p c m pth b =
     (case on_response r of
        (ev, Fulfilled v) \<Rightarrow> (SetTimeout (client_timeout c) # Fetch (request_init p c m pth b) # ev, Fulfilled v)
      | (ev, Rejected e) \<Rightarrow>
          (SetTimeout (client_timeout c) # Fetch (request_init p c m pth b) # ev @ [ClearTimeout],
           Rejected (catch_clause (client_timeout c) e))
      | (ev, Pending) \<Rightarrow>
          (SetTimeout (client_timeout c) # Fetch (request_init p c m pth b) # ev, Pending))"
  by (simp add: request_def try_block_def split: prod.splits promise.splits)

lemma request_Rejects:
  "fetch p (request_init p c m pth b) = Rejects e \<Longrightarrow>
   request p c m pth b =
     ([SetTimeout (client_timeout c), Fetch (request_init p c m pth b), ClearTimeout],
      Rejected (catch_clause (client_timeout c) e))"
  by (simp add: request_def try_block_def)

lemma request_Unsettled:
  "fetch p (request_init p c m pth b) = Unsettled e \<Longrightarrow>
   request p c m pth b =
     ([SetTimeout (client_timeout c), Fetch (request_init p c m pth b), TimerFires, Abort, ClearTimeout],
      Rejected (catch_clause (client_timeout c) e))"
proof -
  have "signal (request_init p c m pth b) = Some controller_signal"
    by (simp add: request_init_def)
  then show "fetch p (request_init p c m pth b) = Unsettled e \<Longrightarrow> ?thesis"
    by (simp add: request_def try_block_def)
qed

lemma on_response_204: "status r = 204 \<Longrightarrow> on_response r = ([ClearTimeout], Fulfilled None)"
  by (simp add: on_response_def)

lemma on_response_ok:
  "status r \<noteq> 204 \<Longrightarrow> ok r \<Longrightarrow> json_result r = Fulfilled X \<Longrightarrow>
   on_response r = ([ClearTimeout, ReadJson], Fulfilled (Some X))"
  by (simp add: on_response_def)


lemma on_response_events:
  "fst (on_response r) = [ClearTimeout] \<or> fst (on_response r) = [ClearTimeout, ReadJson]"
  by (simp add: on_response_def Let_def split: promise.splits)



lemma timer_after_append_clear: "timer_after s (es @ [ClearTimeout]) = False"
  by (induction s es rule: timer_after.induct) simp_all

lemma fetch_calls_append: "fetch_calls (xs @ ys) = fetch_calls xs @ fetch_calls ys"
  by (induction xs rule: fetch_calls.induct) simp_all

lemma on_response_no_fetch: "fetch_calls (fst (on_response r)) = []"
  using on_response_events [of r] by auto

lemma request_fetch_calls: "fetch_calls (fst (request p c m pth b)) = [request_init p c m pth b]"
proof (cases "fetch p (request_init p c m pth b)")
  case (Resolves r)
  obtain ev res where o: "on_response r = (ev, res)" by (cases "on_response r")
  with on_response_no_fetch [of r] have "fetch_calls ev = []" by simp
  with Resolves o show ?thesis
    by (cases res) (simp_all add: request_Resolves fetch_calls_append)
next
  case (Rejects e)
  then show ?thesis by (simp add: request_Rejects)
next
  case (Unsettled e)
  then show ?thesis by (simp add: request_Unsettled)
qed

subsection \<open>The example inputs, evaluated\<close>

lemma mock_fetch: "fetch (mock_platform out) i = out"
  by (simp add: mock_platform_def)

lemma sandbox_client_fields:
  "client_baseUrl sandbox_client = ''https://demo.fliinow.com/integration-api/v1''"
  "client_apiKey sandbox_client = ''fk_test_key''"
  "client_timeout sandbox_client = 30000"
  by (simp_all add: sandbox_client_def FliinowClient_def)

lemma quick_client_fields:
  "client_baseUrl quick_client = ''http://localhost:8080/''"
  "client_apiKey quick_client = ''fk_test_key''"
  "client_timeout quick_client = 5000"
  by (simp_all add: quick_client_def FliinowClient_def)

lemma show_int_30000: "show_int 30000 = ''30000''"
  by (simp add: show_int_def show_nat.simps digit_char_def char_of_eq_iff)

lemma show_int_5000: "show_int 5000 = ''5000''"
  by (simp add: show_int_def show_nat.simps digit_char_def char_of_eq_iff)

lemma parseInt_5: "parseInt ''5'' = Finite 5"
  by (simp add: parseInt_def is_whitespace_def is_digit_def digit_value_def)

lemma parseInt_http_date: "parseInt ''Wed, 21 Oct 2015 07:28:00 GMT'' = NaN"
  by (simp add: parseInt_def is_whitespace_def is_digit_def digit_value_def)

lemma retry_after_lookup:
  "headers_get (resp_headers (rate_limited_response ra)) ''Retry-After'' = ra"
  by (cases ra)
    (simp_all add: headers_get_def rate_limited_response_def ascii_lower_def char_of_eq_iff
      eq_commute [of "CHR ''r''"] eq_commute [of "CHR ''a''"])

lemma rate_limited_fields:
  "status (rate_limited_response ra) = 429"
  "json_result (rate_limited_response ra) = Fulfilled rate_limit_envelope"
  by (simp_all add: rate_limited_response_def)

lemma try_block_rate_limited:
  "try_block (mock_platform (Resolves (rate_limited_response ra))) i =
     ([Fetch i, ClearTimeout, ReadJson],
      Rejected (FliinowErr (rate_limit_error
        (case ra of None \<Rightarrow> None | Some s \<Rightarrow> if s \<noteq> [] then Some (parseInt s) else None))))"
  by (simp add: try_block_def mock_fetch on_response_def retry_after_lookup rate_limited_fields
      ok_def rate_limit_envelope_def FliinowError_new_def rate_limit_error_def)

text \<open>
  The header \<^verbatim>\<open>Retry-After: 5\<close> gives 5 seconds; a missing header and an empty one give
  no \<open>retryAfter\<close>.
\<close>

lemma retry_after_examples:
  "snd (request (mock_platform (Resolves (rate_limited_response (Some ''5'')))) sandbox_client GET ''/operations'' None)
     = Rejected (FliinowErr (rate_limit_error (Some (Finite 5))))"
  "snd (request (mock_platform (Resolves (rate_limited_response None))) sandbox_client GET ''/operations'' None)
     = Rejected (FliinowErr (rate_limit_error None))"
  "snd (request (mock_platform (Resolves (rate_limited_response (Some [])))) sandbox_client GET ''/operations'' None)
     = Rejected (FliinowErr (rate_limit_error None))"
  by (simp_all add: request_def try_block_rate_limited parseInt_5)

subsection \<open>Encoding a query string and reading it back\<close>

lemma hex_digit_is_hex: "d < 16 \<Longrightarrow> is_hex (hex_digit d)"
  by (simp add: is_hex_def hex_digit_def Let_def)

lemma hex_value_hex_digit: "d < 16 \<Longrightarrow> hex_value (hex_digit d) = d"
  by (simp add: hex_value_def hex_digit_def Let_def)

lemma hex_digit_not_sep: "d < 16 \<Longrightarrow> hex_digit d \<noteq> CHR ''&'' \<and> hex_digit d \<noteq> CHR ''=''"
  by (auto simp: hex_digit_def char_of_eq_iff take_bit_eq_mod)

lemma safe_not_special:
  "is_urlencoded_safe c \<Longrightarrow> c \<noteq> CHR ''+'' \<and> c \<noteq> CHR ''%'' \<and> c \<noteq> CHR ''&'' \<and> c \<noteq> CHR ''=''"
  by (auto simp: is_urlencoded_safe_def Let_def)

lemma high_nibble: "(of_char c :: nat) div 16 < 16"
proof -
  have "(of_char c :: nat) < 256" by simp
  then show ?thesis by (simp add: less_mult_imp_div_less)
qed

lemma urldecode_byte: "urldecode (urlencode_byte c @ rest) = c # urldecode rest"
proof (cases "c = CHR '' ''")
  case True
  then show ?thesis by (simp add: urlencode_byte_def)
next
  case space: False
  show ?thesis
  proof (cases "is_urlencoded_safe c")
    case True
    with space safe_not_special [of c] show ?thesis by (simp add: urlencode_byte_def)
  next
    case False
    with space show ?thesis
      by (simp add: urlencode_byte_def hex_digit_is_hex hex_value_hex_digit high_nibble)
  qed
qed

lemma urldecode_urlencode: "urldecode (urlencode s) = s"
  by (induction s) (simp_all add: urlencode_def urldecode_byte)

lemma urlencode_byte_no_sep:
  "CHR ''&'' \<notin> set (urlencode_byte c) \<and> CHR ''='' \<notin> set (urlencode_byte c)"
  using safe_not_special [of c] hex_digit_not_sep [of "(of_char c :: nat) div 16"]
    hex_digit_not_sep [of "(of_char c :: nat) mod 16"] high_nibble [of c]
  by (auto simp: urlencode_byte_def)

lemma urlencode_no_sep: "CHR ''&'' \<notin> set (urlencode s) \<and> CHR ''='' \<notin> set (urlencode s)"
  using urlencode_byte_no_sep by (auto simp: urlencode_def)

lemma split_on_nonempty: "split_on d s \<noteq> []"
  by (induction s) (simp_all split: list.splits)

lemma split_on_absent: "d \<notin> set x \<Longrightarrow> split_on d x = [x]"
  by (induction x) auto

lemma split_on_first: "d \<notin> set x \<Longrightarrow> split_on d (x @ d # rest) = x # split_on d rest"
  by (induction x) auto

lemma split_on_join:
  "xs \<noteq> [] \<Longrightarrow> \<forall>x \<in> set xs. d \<notin> set x \<Longrightarrow> split_on d (join_with [d] xs) = xs"
proof (induction "[d]" xs rule: join_with.induct)
  case 1
  then show ?case by simp
next
  case (2 x)
  then show ?case by (simp add: split_on_absent)
next
  case (3 x y ys)
  then show ?case by (simp add: split_on_first)
qed

lemma pair_no_amp: "CHR ''&'' \<notin> set (urlencode_pair kv)"
  using urlencode_no_sep by (simp add: urlencode_pair_def)

lemma pair_nonempty: "urlencode_pair kv \<noteq> []"
  by (simp add: urlencode_pair_def)

lemma takeWhile_until: "d \<notin> set xs \<Longrightarrow> takeWhile (\<lambda>c. c \<noteq> d) (xs @ d # ys) = xs"
  by (induction xs) auto

lemma dropWhile_until: "d \<notin> set xs \<Longrightarrow> dropWhile (\<lambda>c. c \<noteq> d) (xs @ d # ys) = d # ys"
  by (induction xs) auto

lemma pair_key: "urldecode (takeWhile (\<lambda>c. c \<noteq> CHR ''='') (urlencode_pair kv)) = fst kv"
  using urlencode_no_sep [of "fst kv"]
  by (simp add: urlencode_pair_def takeWhile_until urldecode_urlencode)

lemma pair_value:
  "urldecode (drop (Suc 0) (dropWhile (\<lambda>c. c \<noteq> CHR ''='') (urlencode_pair kv))) = snd kv"
  using urlencode_no_sep [of "fst kv"]
  by (simp add: urlencode_pair_def dropWhile_until urldecode_urlencode)

lemma join_with_empty: "join_with sep xs = [] \<Longrightarrow> \<forall>x \<in> set xs. x = []"
  by (induction sep xs rule: join_with.induct) auto

lemma toString_empty: "(URLSearchParams_toString sp = []) = (sp = [])"
proof
  assume "URLSearchParams_toString sp = []"
  then have "\<forall>x \<in> set (map urlencode_pair sp). x = []"
    unfolding URLSearchParams_toString_def by (rule join_with_empty)
  then show "sp = []"
    by (cases sp) (simp_all add: pair_nonempty)
next
  assume "sp = []"
  then show "URLSearchParams_toString sp = []"
    by (simp add: URLSearchParams_toString_def)
qed

lemma parse_toString: "parse_urlencoded (URLSearchParams_toString sp) = sp"
proof (cases "sp = []")
  case True
  then show ?thesis by (simp add: parse_urlencoded_def URLSearchParams_toString_def)
next
  case False
  then have "split_on CHR ''&'' (join_with ''&'' (map urlencode_pair sp)) = map urlencode_pair sp"
    by (intro split_on_join) (auto simp: pair_no_amp)
  moreover have "filter (\<lambda>x. x \<noteq> []) (map urlencode_pair sp) = map urlencode_pair sp"
    by (simp add: filter_map comp_def pair_nonempty)
  moreover have "map (\<lambda>x. (urldecode (takeWhile (\<lambda>c. c \<noteq> CHR ''='') x),
                           urldecode (drop 1 (dropWhile (\<lambda>c. c \<noteq> CHR ''='') x))))
                   (map urlencode_pair sp) = sp"
    by (induction sp) (simp_all add: pair_key pair_value)
  ultimately show ?thesis
    by (simp only: parse_urlencoded_def URLSearchParams_toString_def)
qed

text \<open>The loop of \<open>buildQueryString\<close> collects the present fields, in order.\<close>

lemma searchParams_loop:
  "foldl (\<lambda>sp (key, v). if v \<noteq> None \<and> v \<noteq> Some JNull then sp @ [(key, String v)] else sp) acc params
     = acc @ present_fields params"
proof (induction params arbitrary: acc)
  case Nil
  show ?case by (simp add: present_fields_def)
next
  case (Cons kv params)
  obtain k v where kv: "kv = (k, v)" by (cases kv)
  have "present_fields (kv # params) =
          (if v \<noteq> None \<and> v \<noteq> Some JNull then (k, String v) # present_fields params
           else present_fields params)"
    by (simp add: present_fields_def kv)
  with Cons show ?case by (simp add: kv)
qed

lemma buildQueryString_eq:
  "buildQueryString params =
     (if present_fields params = [] then []
      else CHR ''?'' # URLSearchParams_toString (present_fields params))"
  using searchParams_loop [of "[]" params]
  by (simp add: buildQueryString_def Let_def toString_empty)

section \<open>The request lifecycle\<close>

text \<open>
  C1. When the exchange gives a response whose status is outside 200..299 and whose body
  decodes to an error envelope (an object whose members \<^verbatim>\<open>error\<close>, \<^verbatim>\<open>message\<close>,
  \<^verbatim>\<open>timestamp\<close> and \<^verbatim>\<open>path\<close> are strings), \<open>request\<close> rejects with a \<open>FliinowError\<close>
  whose \<open>statusCode\<close> is the response's status and whose \<open>code\<close>, \<open>message\<close> and \<open>path\<close>
  are the envelope's \<^verbatim>\<open>error\<close>, \<^verbatim>\<open>message\<close> and \<^verbatim>\<open>path\<close>.
\<close>

theorem error_envelope_becomes_FliinowError:
  assumes "fetch p (request_init p c m pth b) = Resolves r"
    and "\<not> (200 \<le> status r \<and> status r < 300)"
    and "json_result r = Fulfilled (JObj env)"
    and "map_of env ''error'' = Some (JStr err)"
    and "map_of env ''message'' = Some (JStr msg)"
    and "map_of env ''timestamp'' = Some (JStr ts)"
    and "map_of env ''path'' = Some (JStr pa)"
  shows "\<exists>fe. snd (request p c m pth b) = Rejected (FliinowErr fe) \<and>
              statusCode fe = status r \<and> code fe = Some (JStr err) \<and>
              message fe = msg \<and> path fe = Some (JStr pa)"
proof -
  from assms(2) have "status r \<noteq> 204" and "\<not> ok r"
    by (auto simp: ok_def)
  with assms(3-7) obtain ra where
    "on_response r = ([ClearTimeout, ReadJson],
        Rejected (FliinowErr \<lparr> message = msg, name = ''FliinowError'', statusCode = status r,
               code = Some (JStr err), path = Some (JStr pa),
               requestId = map_of env ''requestId'', retryAfter = ra \<rparr>))"
    by (simp add: on_response_def FliinowError_new_def Let_def)
  with assms(1) show ?thesis
    by (simp add: request_Resolves)
qed

theorem error_envelope_becomes_FliinowError_witness:
  "status (rate_limited_response (Some ''5'')) = 429 \<and>
   (\<exists>fe. snd (request (mock_platform (Resolves (rate_limited_response (Some ''5''))))
                 sandbox_client GET ''/operations'' None)
           = Rejected (FliinowErr fe) \<and>
         statusCode fe = 429 \<and> code fe = Some (JStr ''RATE_LIMIT_EXCEEDED'') \<and>
         message fe = ''Too many requests'' \<and> path fe = Some (JStr ''/operations''))"
  using error_envelope_becomes_FliinowError
    [of "mock_platform (Resolves (rate_limited_response (Some ''5'')))" sandbox_client GET
      "''/operations''" None "rate_limited_response (Some ''5'')"
      "[(''error'', JStr ''RATE_LIMIT_EXCEEDED''), (''message'', JStr ''Too many requests''),
        (''timestamp'', JStr ''2026-01-13T10:00:00Z''), (''path'', JStr ''/operations'')]"
      "''RATE_LIMIT_EXCEEDED''" "''Too many requests''" "''2026-01-13T10:00:00Z''" "''/operations''"]
  by (simp add: mock_fetch rate_limited_response_def rate_limit_envelope_def)

text \<open>
  C2. When the exchange gives a response with a status in 200..299 other than 204 whose
  body decodes to the value \<open>X\<close>, \<open>request\<close> resolves with \<open>X\<close> itself, whatever \<open>X\<close> is:
  nothing is checked against a schema, no member is dropped and no value is rejected.
\<close>

theorem success_returns_decoded_body:
  assumes "fetch p (request_init p c m pth b) = Resolves r"
    and "200 \<le> status r" and "status r < 300" and "status r \<noteq> 204"
    and "json_result r = Fulfilled X"
  shows "snd (request p c m pth b) = Fulfilled (Some X)"
proof -
  from assms(2,3) have "ok r" by (simp add: ok_def)
  with assms(4,5) have "on_response r = ([ClearTimeout, ReadJson], Fulfilled (Some X))"
    by (simp add: on_response_ok)
  with assms(1) show ?thesis by (simp add: request_Resolves)
qed

theorem success_returns_decoded_body_witness:
  "status created_response = 200 \<and> json_result created_response = Fulfilled created_body \<and>
   snd (request (mock_platform (Resolves created_response)) sandbox_client POST ''/operations''
          (Some (JObj [(''totalPrice'', JNum 1500), (''totalReserve'', JNum 1500)])))
     = Fulfilled (Some created_body)"
  using success_returns_decoded_body
    [of "mock_platform (Resolves created_response)" sandbox_client POST "''/operations''"
      "Some (JObj [(''totalPrice'', JNum 1500), (''totalReserve'', JNum 1500)])"
      created_response created_body]
  by (simp add: mock_fetch created_response_def)

subsection \<open>What the timer covers\<close>

text \<open>
  When the \<^verbatim>\<open>fetch\<close> promise is still pending as the timer fires, the callback aborts the
  controller; the call holds the controller's signal, so the platform rejects it, and
  when it rejects it with its \<^verbatim>\<open>AbortError\<close> the \<^verbatim>\<open>catch\<close> clause turns that into a plain
  \<^verbatim>\<open>Error\<close> (not a \<open>FliinowError\<close>) whose message holds the client's timeout.
\<close>

lemma pending_fetch_times_out:
  assumes "fetch p (request_init p c m pth b) = Unsettled (ErrorObj ''AbortError'' am)"
  shows "request p c m pth b =
        ([SetTimeout (client_timeout c), Fetch (request_init p c m pth b), TimerFires, Abort, ClearTimeout],
         Rejected (ErrorObj ''Error'' (''Request timeout after '' @ show_int (client_timeout c) @ ''ms'')))"
proof -
  have "signal (request_init p c m pth b) = Some controller_signal"
    by (simp add: request_init_def)
  with assms show ?thesis by (simp add: request_def try_block_def)
qed

lemma pending_fetch_times_out_example:
  "request (mock_platform (Unsettled AbortError)) quick_client GET ''operations'' None =
     ([SetTimeout 5000, Fetch localhost_operations, TimerFires, Abort, ClearTimeout],
      Rejected (ErrorObj ''Error'' ''Request timeout after 5000ms''))"
  using pending_fetch_times_out
    [of "mock_platform (Unsettled AbortError)" quick_client GET "''operations''" None
      "''This operation was aborted''"]
  by (simp add: mock_fetch AbortError_def quick_client_fields show_int_5000 request_init_def
      localhost_operations_def)

text \<open>
  The signal is what carries the abort: the same pending call without it is aborted to
  no effect and stays pending.
\<close>

lemma pending_fetch_without_signal:
  assumes "fetch p (init\<lparr>signal := None\<rparr>) = Unsettled e"
  shows "try_block p (init\<lparr>signal := None\<rparr>) =
           ([Fetch (init\<lparr>signal := None\<rparr>), TimerFires, Abort], Pending)"
  using assms by (simp add: try_block_def)

text \<open>Whatever the exchange does, no timer is left scheduled.\<close>

lemma no_timer_is_left: "\<not> dangling_timer (fst (request p c m pth b))"
proof (cases "fetch p (request_init p c m pth b)")
  case (Resolves r)
  obtain ev res where o: "on_response r = (ev, res)" by (cases "on_response r")
  with on_response_events [of r]
  have ev: "ev = [ClearTimeout] \<or> ev = [ClearTimeout, ReadJson]" by simp
  show ?thesis
  proof (cases res)
    case (Rejected e)
    with o Resolves show ?thesis
      using timer_after_append_clear [of True "Fetch (request_init p c m pth b) # ev"]
      by (simp add: request_Resolves dangling_timer_def)
  next
    case (Fulfilled v)
    with o Resolves ev show ?thesis
      by (auto simp: request_Resolves dangling_timer_def)
  next
    case Pending
    with o Resolves ev show ?thesis
      by (auto simp: request_Resolves dangling_timer_def)
  qed
next
  case (Rejects e)
  then show ?thesis by (simp add: request_Rejects dangling_timer_def)
next
  case (Unsettled e)
  then show ?thesis by (simp add: request_Unsettled dangling_timer_def)
qed

text \<open>
  Once \<^verbatim>\<open>fetch\<close> has given a response the timer is cleared, and neither the timer nor the
  abort happens afterwards, however long the body takes.
\<close>

lemma response_stops_the_timer:
  assumes "fetch p (request_init p c m pth b) = Resolves r"
  shows "TimerFires \<notin> set (fst (request p c m pth b)) \<and> Abort \<notin> set (fst (request p c m pth b))"
proof -
  obtain ev res where o: "on_response r = (ev, res)" by (cases "on_response r")
  with on_response_events [of r]
  have "ev = [ClearTimeout] \<or> ev = [ClearTimeout, ReadJson]" by simp
  with o assms show ?thesis
    by (cases res) (auto simp: request_Resolves)
qed

lemma stalled_body_leaves_request_pending:
  assumes "fetch p (request_init p c m pth b) = Resolves r"
    and "status r \<noteq> 204" and "json_result r = Pending"
  shows "request p c m pth b =
           ([SetTimeout (client_timeout c), Fetch (request_init p c m pth b), ClearTimeout, ReadJson],
            Pending)"
proof -
  from assms(2,3) have "on_response r = ([ClearTimeout, ReadJson], Pending)"
    by (simp add: on_response_def)
  with assms(1) show ?thesis by (simp add: request_Resolves)
qed

text \<open>
  C3. The claim: whenever the exchange does not complete within the client's timeout,
  it is cancelled and \<open>request\<close> fails with a timeout error, and no timer is left
  scheduled on any path. The second half holds (\<open>no_timer_is_left\<close>), and so does the
  first while no response has arrived (\<open>pending_fetch_times_out\<close>). But the timer is
  cleared as soon as the response's status and headers are there, before the body is
  read: when the body then never arrives in full, nothing is aborted, no timeout error is
  thrown and \<open>request\<close> stays pending.
\<close>

theorem stalled_body_is_never_timed_out:
  "request (mock_platform (Resolves stalled_response)) quick_client GET ''operations'' None =
     ([SetTimeout 5000, Fetch localhost_operations, ClearTimeout, ReadJson], Pending)
   \<and> \<not> dangling_timer [SetTimeout 5000, Fetch localhost_operations, ClearTimeout, ReadJson]"
proof -
  have "request (mock_platform (Resolves stalled_response)) quick_client GET ''operations'' None =
     ([SetTimeout (client_timeout quick_client),
       Fetch (request_init (mock_platform (Resolves stalled_response)) quick_client GET ''operations'' None),
       ClearTimeout, ReadJson], Pending)"
    by (rule stalled_body_leaves_request_pending [where r = stalled_response])
       (simp_all add: mock_fetch stalled_response_def)
  then show ?thesis
    by (simp add: quick_client_fields request_init_def localhost_operations_def dangling_timer_def)
qed

text \<open>
  C4. The claim: on a response outside 200..299 the error's \<open>retryAfter\<close> is the integer
  in the \<^verbatim>\<open>Retry-After\<close> header when the header is there and is an integer, and is
  absent otherwise. The header may also carry a date, and then \<open>request\<close> does not
  leave \<open>retryAfter\<close> absent: it stores what \<^verbatim>\<open>parseInt\<close> returns, which is \<^verbatim>\<open>NaN\<close>.
\<close>

theorem retry_after_of_a_date_is_NaN:
  "snd (request
          (mock_platform (Resolves (rate_limited_response (Some ''Wed, 21 Oct 2015 07:28:00 GMT''))))
          sandbox_client GET ''/operations'' None)
     = Rejected (FliinowErr (rate_limit_error (Some NaN)))
   \<and> retryAfter (rate_limit_error (Some NaN)) \<noteq> None"
  by (simp add: request_def try_block_rate_limited parseInt_http_date rate_limit_error_def)



text \<open>
  C6. When the response has status 204, \<open>request\<close> resolves with \<^verbatim>\<open>undefined\<close> and
  \<^verbatim>\<open>response.json()\<close> is not called, whatever the body would decode to.
\<close>

theorem no_content_is_not_decoded:
  assumes "fetch p (request_init p c m pth b) = Resolves r" and "status r = 204"
  shows "snd (request p c m pth b) = Fulfilled None \<and> ReadJson \<notin> set (fst (request p c m pth b))"
  using assms by (simp add: request_Resolves on_response_204)

theorem no_content_is_not_decoded_witness:
  "status no_content_response = 204 \<and>
   snd (request (mock_platform (Resolves no_content_response)) sandbox_client POST
          ''/operations/abc123/cancel'' None) = Fulfilled None \<and>
   ReadJson \<notin> set (fst (request (mock_platform (Resolves no_content_response)) sandbox_client POST
          ''/operations/abc123/cancel'' None))"
  using no_content_is_not_decoded
    [of "mock_platform (Resolves no_content_response)" sandbox_client POST
      "''/operations/abc123/cancel''" None no_content_response]
  by (simp add: mock_fetch no_content_response_def)

section \<open>The query string of \<open>list\<close>\<close>

lemma list_urls:
  "map url (fetch_calls (fst (list p c (Some params)))) =
     [client_baseUrl c @ ''/operations'' @ buildQueryString params]"
  "map url (fetch_calls (fst (list p c None))) = [client_baseUrl c @ ''/operations'']"
  by (simp_all add: list_def request_fetch_calls request_init_def)

text \<open>
  C7. The query string that \<open>list\<close> builds holds exactly the fields of the parameters
  object whose value is neither \<^verbatim>\<open>undefined\<close> nor \<^verbatim>\<open>null\<close>, each value as a string, in the
  order of the object: read back, the query string gives those fields. When no field is
  present the query string is empty, without a \<^verbatim>\<open>?\<close>, and the path is \<^verbatim>\<open>/operations\<close>
  alone. The query string is a function of the parameters.
\<close>

theorem list_query_string_holds_the_present_fields:
  "query_fields (buildQueryString params) = present_fields params
   \<and> buildQueryString params =
       (if present_fields params = [] then []
        else CHR ''?'' # URLSearchParams_toString (present_fields params))
   \<and> map url (fetch_calls (fst (list p c (Some params)))) =
       [client_baseUrl c @ ''/operations'' @ buildQueryString params]
   \<and> map url (fetch_calls (fst (list p c None))) = [client_baseUrl c @ ''/operations'']"
proof -
  have "query_fields (buildQueryString params) = present_fields params"
  proof (cases "present_fields params = []")
    case True
    then show ?thesis
      by (simp add: buildQueryString_eq query_fields_def parse_urlencoded_def)
  next
    case False
    then show ?thesis
      by (simp add: buildQueryString_eq query_fields_def parse_toString)
  qed
  then show ?thesis
    using buildQueryString_eq [of params] list_urls [of p c] by simp
qed

lemma list_query_examples:
  "buildQueryString [] = []"
  "buildQueryString [(''status'', None), (''from'', Some JNull)] = []"
  "buildQueryString [(''status'', Some (JStr ''FAVORABLE'')), (''from'', None),
                     (''page'', Some (JNum 0)), (''size'', Some (JNum 20))]
     = ''?status=FAVORABLE&page=0&size=20''"
  by (simp_all add: buildQueryString_def URLSearchParams_toString_def urlencode_pair_def
      urlencode_def urlencode_byte_def is_urlencoded_safe_def show_int_def show_nat.simps
      digit_char_def char_of_eq_iff)

section \<open>The client's configuration\<close>

text \<open>
  C8, as it is stated, says that a \<open>baseUrl\<close> given in the configuration is the base URL
  of the client. The constructor tests \<^verbatim>\<open>if (config.baseUrl)\<close>, which an empty string
  fails: an empty \<open>baseUrl\<close> is passed over and \<open>sandbox\<close> decides.
\<close>

theorem empty_baseUrl_is_passed_over:
  "client_baseUrl (FliinowClient \<lparr> apiKey = ''fk_test_key'', sandbox = Some True, timeout = None,
                                    baseUrl = Some [] \<rparr>)
     = ''https://demo.fliinow.com/integration-api/v1''"
  by (simp add: FliinowClient_def)

text \<open>
  C8, amended. The base URL is fixed by the constructor: a \<open>baseUrl\<close> that is given and
  not empty is used, whatever \<open>sandbox\<close> is; with no \<open>baseUrl\<close> or an empty one,
  \<open>sandbox = true\<close> selects the demo host, and anything else the production host. Every
  request of the client goes to that base URL followed by the path.
\<close>

theorem base_url_precedence:
  "(\<forall>u. baseUrl config = Some u \<and> u \<noteq> [] \<longrightarrow> client_baseUrl (FliinowClient config) = u)
   \<and> ((baseUrl config = None \<or> baseUrl config = Some []) \<and> sandbox config = Some True \<longrightarrow>
        client_baseUrl (FliinowClient config) = ''https://demo.fliinow.com/integration-api/v1'')
   \<and> ((baseUrl config = None \<or> baseUrl config = Some []) \<and> sandbox config \<noteq> Some True \<longrightarrow>
        client_baseUrl (FliinowClient config) = ''https://app.fliinow.com/integration-api/v1'')
   \<and> map url (fetch_calls (fst (request p (FliinowClient config) m pth b))) =
        [client_baseUrl (FliinowClient config) @ pth]"
proof (intro conjI allI impI)
  fix u
  assume "baseUrl config = Some u \<and> u \<noteq> []"
  then show "client_baseUrl (FliinowClient config) = u"
    by (simp add: FliinowClient_def)
next
  assume "(baseUrl config = None \<or> baseUrl config = Some []) \<and> sandbox config = Some True"
  then show "client_baseUrl (FliinowClient config) = ''https://demo.fliinow.com/integration-api/v1''"
    by (auto simp: FliinowClient_def)
next
  assume "(baseUrl config = None \<or> baseUrl config = Some []) \<and> sandbox config \<noteq> Some True"
  then show "client_baseUrl (FliinowClient config) = ''https://app.fliinow.com/integration-api/v1''"
    by (auto simp: FliinowClient_def)
next
  show "map url (fetch_calls (fst (request p (FliinowClient config) m pth b))) =
        [client_baseUrl (FliinowClient config) @ pth]"
    by (simp add: request_fetch_calls request_init_def)
qed

theorem base_url_precedence_witness:
  "client_baseUrl (FliinowClient \<lparr> apiKey = ''fk_test_key'', sandbox = Some True, timeout = None,
                                    baseUrl = Some ''https://staging.example/api'' \<rparr>)
     = ''https://staging.example/api''
   \<and> client_baseUrl (FliinowClient \<lparr> apiKey = ''fk_test_key'', sandbox = Some True, timeout = None,
                                    baseUrl = None \<rparr>)
     = ''https://demo.fliinow.com/integration-api/v1''
   \<and> client_baseUrl (FliinowClient \<lparr> apiKey = ''fk_live_key'', sandbox = None, timeout = None,
                                    baseUrl = None \<rparr>)
     = ''https://app.fliinow.com/integration-api/v1''"
  using
    base_url_precedence [of "\<lparr> apiKey = ''fk_test_key'', sandbox = Some True, timeout = None,
                               baseUrl = Some ''https://staging.example/api'' \<rparr>"]
    base_url_precedence [of "\<lparr> apiKey = ''fk_test_key'', sandbox = Some True, timeout = None,
                               baseUrl = None \<rparr>"]
    base_url_precedence [of "\<lparr> apiKey = ''fk_live_key'', sandbox = None, timeout = None,
                               baseUrl = None \<rparr>"]
  by simp

section \<open>What \<open>request\<close> sends, and what its \<^verbatim>\<open>catch\<close> clause keeps\<close>

text \<open>
  C9. Every \<open>request\<close> makes one \<^verbatim>\<open>fetch\<close> call. Its URL is the client's base URL
  followed by the path, character for character (a slash at the end of one and at the
  start of the other both stay), its method is the one asked for, and its headers are the
  API key, \<^verbatim>\<open>Content-Type: application/json\<close> and \<^verbatim>\<open>Accept: application/json\<close>.
\<close>

theorem request_url_and_headers:
  "fetch_calls (fst (request p c m pth b)) = [request_init p c m pth b]
   \<and> url (request_init p c m pth b) = client_baseUrl c @ pth
   \<and> http_method (request_init p c m pth b) = m
   \<and> headers (request_init p c m pth b) =
       [(''X-Fliinow-API-Key'', client_apiKey c),
        (''Content-Type'', ''application/json''),
        (''Accept'', ''application/json'')]"
proof -
  have "fetch_calls (fst (request p c m pth b)) = [request_init p c m pth b]"
    by (rule request_fetch_calls)
  then show ?thesis by (simp add: request_init_def)
qed

lemma duplicate_slash_is_kept:
  "map url (fetch_calls (fst (request p quick_client GET ''/operations'' None)))
     = [''http://localhost:8080//operations'']"
  by (simp add: request_fetch_calls request_init_def quick_client_fields)

text \<open>
  C10. When the \<^verbatim>\<open>try\<close> block throws a \<open>FliinowError\<close>, \<open>request\<close> rejects with that very
  \<open>FliinowError\<close>, every field as it was, and the last thing it does before is to clear
  the timer.
\<close>

theorem FliinowError_is_rethrown_unchanged:
  assumes "try_block p (request_init p c m pth b) = (ev, Rejected (FliinowErr fe))"
  shows "request p c m pth b =
           (SetTimeout (client_timeout c) # ev @ [ClearTimeout], Rejected (FliinowErr fe))"
proof -
  have "catch_clause (client_timeout c) (FliinowErr fe) = FliinowErr fe" by simp
  with assms show ?thesis by (simp add: request_def)
qed

theorem FliinowError_is_rethrown_unchanged_witness:
  "try_block (mock_platform (Resolves (rate_limited_response (Some ''5'')))) sandbox_operations
     = ([Fetch sandbox_operations, ClearTimeout, ReadJson],
        Rejected (FliinowErr (rate_limit_error (Some (Finite 5)))))
   \<and> request (mock_platform (Resolves (rate_limited_response (Some ''5'')))) sandbox_client GET
       ''/operations'' None
     = ([SetTimeout 30000, Fetch sandbox_operations, ClearTimeout, ReadJson, ClearTimeout],
        Rejected (FliinowErr (rate_limit_error (Some (Finite 5)))))"
  using FliinowError_is_rethrown_unchanged
    [of "mock_platform (Resolves (rate_limited_response (Some ''5'')))" sandbox_client GET
      "''/operations''" None "[Fetch sandbox_operations, ClearTimeout, ReadJson]"
      "rate_limit_error (Some (Finite 5))"]
  by (simp add: try_block_rate_limited parseInt_5 sandbox_client_fields request_init_def
      sandbox_operations_def)

end
